theory Spec2Isabelle
  imports
    Main
    "HOL-Library.AList"
    "HOL-Library.Char_ord"
    "HOL-Library.List_Lexorder"
    "HOL-Library.Product_Lexorder"
begin

section \<open>Python values\<close>

text \<open>
  The client and the command layer of ETLR pass dynamically typed values around: the
  document returned by \<^verbatim>\<open>yaml.safe_load\<close>, the JSON payloads and the JSON
  responses. They are modelled by one datatype. A \<^verbatim>\<open>str\<close> is a \<open>string\<close>
  (its UTF-8 bytes), a \<^verbatim>\<open>dict\<close> is the list of its items in insertion order,
  with distinct keys. Floats and timestamps, which a YAML document may also hold, are
  not represented.
\<close>

datatype pyval =
    PNone
  | PBool bool
  | PInt int
  | PStr string
  | PList "pyval list"
  | PDict "(pyval \<times> pyval) list"

type_synonym pydict = "(pyval \<times> pyval) list"

text \<open>Python's truth value testing, as used by \<^verbatim>\<open>if x:\<close> and \<^verbatim>\<open>not x\<close>.\<close>

fun truthy :: "pyval \<Rightarrow> bool" where
  "truthy PNone = False"
| "truthy (PBool b) = b"
| "truthy (PInt i) = (i \<noteq> 0)"
| "truthy (PStr s) = (s \<noteq> [])"
| "truthy (PList xs) = (xs \<noteq> [])"
| "truthy (PDict kvs) = (kvs \<noteq> [])"

text \<open>\<^verbatim>\<open>d.get(key, default)\<close> on a dict whose key is a string.\<close>

definition dict_get :: "pydict \<Rightarrow> string \<Rightarrow> pyval \<Rightarrow> pyval" where
  "dict_get kvs key dflt = (case map_of kvs (PStr key) of Some v \<Rightarrow> v | None \<Rightarrow> dflt)"

text \<open>An \<^verbatim>\<open>Optional[str]\<close> argument coming from the command line.\<close>

fun of_opt :: "string option \<Rightarrow> pyval" where
  "of_opt None = PNone"
| "of_opt (Some s) = PStr s"

section \<open>The API client (client.py)\<close>

text \<open>
  \<^verbatim>\<open>APIError(message, status_code=None, details=None)\<close>.
\<close>

datatype api_error = APIError (message: string) (status_code: "int option") (details: "pyval option")

text \<open>
  \<^verbatim>\<open>_request\<close> posts the payload with \<^verbatim>\<open>requests.post\<close> and decodes the
  answer; the transport and the remote service are outside the repository. They are the
  parameter \<open>srv\<close>: given the payloads posted so far and the payload posted now, it
  gives what \<^verbatim>\<open>_request\<close> returns (a \<^verbatim>\<open>dict[str, Any]\<close>, as annotated) or
  the \<^verbatim>\<open>APIError\<close> it raises. The list of payloads posted is threaded through
  every client operation, so that a request that was never issued is visible as an
  unchanged list.
\<close>

type_synonym server = "pyval list \<Rightarrow> pyval \<Rightarrow> api_error + pydict"

type_synonym response = "pyval list \<times> (api_error + pydict)"

definition request :: "server \<Rightarrow> pyval list \<Rightarrow> pyval \<Rightarrow> response" where
  "request srv sent payload = (sent @ [payload], srv sent payload)"

definition missing_identifier :: api_error where
  "missing_identifier =
     APIError ''Must provide either workflow_id or both name and stage'' None None"

definition get_workflow :: "server \<Rightarrow> pyval list \<Rightarrow> pyval \<Rightarrow> pyval \<Rightarrow> pyval \<Rightarrow> response" where
  "get_workflow srv sent workflow_id name stage =
     (if truthy workflow_id then
        request srv sent (PDict [(PStr ''action'', PStr ''get''), (PStr ''workflow_id'', workflow_id)])
      else if truthy name \<and> truthy stage then
        request srv sent
          (PDict [(PStr ''action'', PStr ''get''), (PStr ''name'', name), (PStr ''stage'', stage)])
      else (sent, Inl missing_identifier))"

definition upsert_workflow :: "server \<Rightarrow> pyval list \<Rightarrow> string \<Rightarrow> pyval \<Rightarrow> pyval \<Rightarrow> response" where
  "upsert_workflow srv sent yaml env stage =
     request srv sent
       (PDict ([(PStr ''action'', PStr ''upsert''), (PStr ''workflow_yaml'', PStr yaml)]
          @ (if truthy env then [(PStr ''env'', env)] else [])
          @ (if truthy stage then [(PStr ''stage'', stage)] else [])))"

definition delete_workflow :: "server \<Rightarrow> pyval list \<Rightarrow> pyval \<Rightarrow> pyval \<Rightarrow> pyval \<Rightarrow> response" where
  "delete_workflow srv sent workflow_id name stage =
     (if truthy workflow_id then
        request srv sent
          (PDict [(PStr ''action'', PStr ''delete''), (PStr ''workflow_id'', workflow_id)])
      else if truthy name \<and> truthy stage then
        request srv sent
          (PDict [(PStr ''action'', PStr ''delete''), (PStr ''name'', name), (PStr ''stage'', stage)])
      else (sent, Inl missing_identifier))"

definition deploy_workflow :: "server \<Rightarrow> pyval list \<Rightarrow> pyval \<Rightarrow> pyval \<Rightarrow> pyval \<Rightarrow> response" where
  "deploy_workflow srv sent workflow_id name stage =
     (if truthy workflow_id then
        request srv sent
          (PDict [(PStr ''action'', PStr ''deploy''), (PStr ''workflow_id'', workflow_id)])
      else if truthy name \<and> truthy stage then
        request srv sent
          (PDict [(PStr ''action'', PStr ''deploy''), (PStr ''name'', name), (PStr ''stage'', stage)])
      else (sent, Inl missing_identifier))"

definition stop_workflow :: "server \<Rightarrow> pyval list \<Rightarrow> pyval \<Rightarrow> pyval \<Rightarrow> pyval \<Rightarrow> response" where
  "stop_workflow srv sent workflow_id name stage =
     (if truthy workflow_id then
        request srv sent
          (PDict [(PStr ''action'', PStr ''stop''), (PStr ''workflow_id'', workflow_id)])
      else if truthy name \<and> truthy stage then
        request srv sent
          (PDict [(PStr ''action'', PStr ''stop''), (PStr ''name'', name), (PStr ''stage'', stage)])
      else (sent, Inl missing_identifier))"

definition get_status :: "server \<Rightarrow> pyval list \<Rightarrow> pyval \<Rightarrow> pyval \<Rightarrow> pyval \<Rightarrow> response" where
  "get_status srv sent workflow_id name stage =
     (if truthy workflow_id then
        request srv sent
          (PDict [(PStr ''action'', PStr ''status''), (PStr ''workflow_id'', workflow_id)])
      else if truthy name \<and> truthy stage then
        request srv sent
          (PDict [(PStr ''action'', PStr ''status''), (PStr ''name'', name), (PStr ''stage'', stage)])
      else (sent, Inl missing_identifier))"

definition restore_version :: "server \<Rightarrow> pyval list \<Rightarrow> string \<Rightarrow> int \<Rightarrow> response" where
  "restore_version srv sent workflow_id version =
     request srv sent
       (PDict [(PStr ''action'', PStr ''restore_version''), (PStr ''workflow_id'', PStr workflow_id),
               (PStr ''version'', PInt version)])"

text \<open>
  The five operations that take a workflow identifier, each with the value of its
  \<^verbatim>\<open>action\<close> field.
\<close>

definition identifier_operations ::
  "((server \<Rightarrow> pyval list \<Rightarrow> pyval \<Rightarrow> pyval \<Rightarrow> pyval \<Rightarrow> response) \<times> string) list" where
  "identifier_operations =
     [(get_workflow, ''get''), (delete_workflow, ''delete''), (deploy_workflow, ''deploy''),
      (stop_workflow, ''stop''), (get_status, ''status'')]"

text \<open>The two payload shapes of these operations.\<close>

definition by_id :: "string \<Rightarrow> pyval \<Rightarrow> pyval" where
  "by_id action workflow_id =
     PDict [(PStr ''action'', PStr action), (PStr ''workflow_id'', workflow_id)]"

definition by_name_stage :: "string \<Rightarrow> pyval \<Rightarrow> pyval \<Rightarrow> pyval" where
  "by_name_stage action name stage =
     PDict [(PStr ''action'', PStr action), (PStr ''name'', name), (PStr ''stage'', stage)]"

section \<open>Environment reconciliation (main.py, gather_environment_variables)\<close>

text \<open>
  The exceptions that can leave \<^verbatim>\<open>gather_environment_variables\<close>: the
  \<^verbatim>\<open>click.ClickException\<close> it raises itself, and the \<^verbatim>\<open>AttributeError\<close>
  and \<^verbatim>\<open>TypeError\<close> Python raises when the YAML document does not have the
  expected shape.
\<close>

datatype exn = ClickException string | AttributeError | TypeError

text \<open>\<^verbatim>\<open>x.get(key, default)\<close> on any value: only a dict has the method.\<close>

definition py_get :: "pyval \<Rightarrow> string \<Rightarrow> pyval \<Rightarrow> exn + pyval" where
  "py_get d key dflt = (case d of PDict kvs \<Rightarrow> Inr (dict_get kvs key dflt) | _ \<Rightarrow> Inl AttributeError)"

text \<open>
  The characters of a \<^verbatim>\<open>str\<close>. The string is kept as its UTF-8 bytes, in which a
  character is one lead byte with the continuation bytes (0x80 to 0xBF) that follow it.
\<close>

definition continuation_byte :: "char \<Rightarrow> bool" where
  "continuation_byte c = (128 \<le> (of_char c :: nat) \<and> (of_char c :: nat) < 192)"

function utf8_chars :: "string \<Rightarrow> string list" where
  "utf8_chars [] = []"
| "utf8_chars (c # cs) =
     (c # takeWhile continuation_byte cs) # utf8_chars (dropWhile continuation_byte cs)"
  by pat_completeness auto
termination
  by (relation "measure length") (auto simp: length_dropWhile_le less_Suc_eq_le)

text \<open>
  The values a \<^verbatim>\<open>for\<close> loop runs through: the elements of a list, the keys of a
  dict, the characters of a string; other values are not iterable.
\<close>

fun py_iter :: "pyval \<Rightarrow> exn + pyval list" where
  "py_iter (PList xs) = Inr xs"
| "py_iter (PDict kvs) = Inr (map fst kvs)"
| "py_iter (PStr s) = Inr (map PStr (utf8_chars s))"
| "py_iter PNone = Inl TypeError"
| "py_iter (PBool b) = Inl TypeError"
| "py_iter (PInt i) = Inl TypeError"

text \<open>\<^verbatim>\<open>sep.join(xs)\<close>.\<close>

fun join :: "string \<Rightarrow> string list \<Rightarrow> string" where
  "join sep [] = []"
| "join sep [x] = x"
| "join sep (x # y # ys) = x @ sep @ join sep (y # ys)"

text \<open>
  \<^verbatim>\<open>key, value = item.split("=", 1)\<close>, for an item that holds an equals sign: the
  text before the first one and the text after it.
\<close>

definition split_eq :: "string \<Rightarrow> string \<times> string" where
  "split_eq item =
     (takeWhile (\<lambda>c. c \<noteq> CHR ''='') item, drop 1 (dropWhile (\<lambda>c. c \<noteq> CHR ''='') item))"

text \<open>
  The loop over \<^verbatim>\<open>cli_overrides\<close> (it stands twice in the source, with the same
  body). A dict keeps its keys in insertion order and an assignment to a key it holds
  keeps the key's place, which is what \<^const>\<open>AList.update\<close> does.
\<close>

fun apply_overrides :: "(string \<times> string) list \<Rightarrow> string list \<Rightarrow> exn + (string \<times> string) list" where
  "apply_overrides env_vars [] = Inr env_vars"
| "apply_overrides env_vars (item # items) =
     (if CHR ''='' \<notin> set item then
        Inl (ClickException (''Invalid env format: '' @ item @ ''. Use KEY=VALUE''))
      else apply_overrides (AList.update (fst (split_eq item)) (snd (split_eq item)) env_vars) items)"

text \<open>The name and the secret flag one declaration entry gives.\<close>

definition read_declaration :: "pyval \<Rightarrow> pyval \<times> pyval" where
  "read_declaration env_def =
     (case env_def of
        PDict kvs \<Rightarrow> (dict_get kvs ''name'' PNone, dict_get kvs ''secret'' (PBool False))
      | _ \<Rightarrow> (env_def, PBool False))"

text \<open>
  The state of the loop over the declarations: \<^verbatim>\<open>env_vars\<close>, \<^verbatim>\<open>missing\<close> and
  \<^verbatim>\<open>secret_vars\<close>.
\<close>

type_synonym gather_state = "(string \<times> string) list \<times> string list \<times> string set"

text \<open>
  One turn of the loop. A name that is not a string and is taken as true makes
  \<^verbatim>\<open>secret_vars.add\<close> (when it is not hashable) or \<^verbatim>\<open>os.getenv\<close> raise
  TypeError.
\<close>

definition declare_variable :: "(string \<Rightarrow> string option) \<Rightarrow> pyval \<Rightarrow> gather_state \<Rightarrow> exn + gather_state" where
  "declare_variable getenv env_def st =
     (case st of (env_vars, missing, secret_vars) \<Rightarrow>
      case read_declaration env_def of (name, is_secret) \<Rightarrow>
        if \<not> truthy name then Inr st
        else (case name of
            PStr n \<Rightarrow>
              (let secret_vars' = (if truthy is_secret then insert n secret_vars else secret_vars) in
               case getenv n of
                 None \<Rightarrow> Inr (env_vars, missing @ [n], secret_vars')
               | Some val \<Rightarrow> Inr (AList.update n val env_vars, missing, secret_vars'))
          | _ \<Rightarrow> Inl TypeError))"

fun scan_declarations :: "(string \<Rightarrow> string option) \<Rightarrow> pyval list \<Rightarrow> gather_state \<Rightarrow> exn + gather_state" where
  "scan_declarations getenv [] st = Inr st"
| "scan_declarations getenv (env_def # rest) st =
     (case declare_variable getenv env_def st of
        Inl e \<Rightarrow> Inl e
      | Inr st' \<Rightarrow> scan_declarations getenv rest st')"

text \<open>The message of the exception raised for a non-empty \<^verbatim>\<open>missing\<close> list.\<close>

definition missing_message :: "string \<Rightarrow> string list \<Rightarrow> string" where
  "missing_message first missing =
     ''Missing required environment variables: '' @ join '', '' missing @ [CHR 0x0A]
     @ ''Set them with:'' @ [CHR 0x0A] @ ''  export '' @ first @ ''=value'' @ [CHR 0x0A]
     @ ''Or use the -e flag:'' @ [CHR 0x0A] @ ''  etlr deploy workflow.yaml -e '' @ first @ ''=value''"

text \<open>The lines echoed for a non-empty \<^verbatim>\<open>env_vars\<close>, one list element per echo.\<close>

definition display_line :: "string set \<Rightarrow> string \<times> string \<Rightarrow> string" where
  "display_line secret_vars item =
     (case item of (name, val) \<Rightarrow>
        let is_secret = (name \<in> secret_vars);
            display_value = (if is_secret then ''***'' else val);
            secret_label = (if is_secret then '' (secret)'' else [])
        in ''  '' @ name @ '': '' @ display_value @ secret_label)"

definition display_environment :: "(string \<times> string) list \<Rightarrow> string set \<Rightarrow> string list" where
  "display_environment env_vars secret_vars =
     (if env_vars \<noteq> [] then
        [CHR 0x0A # ''Environment variables:'']
        @ map (display_line secret_vars) (sort env_vars)
        @ [[]]
      else [])"

text \<open>One object of the returned list.\<close>

definition env_object :: "string \<Rightarrow> string \<Rightarrow> bool \<Rightarrow> pyval" where
  "env_object name val is_secret =
     PDict [(PStr ''name'', PStr name), (PStr ''value'', PStr val), (PStr ''secret'', PBool is_secret)]"

text \<open>\<^verbatim>\<open>parsed.get("workflow", {}).get("environment", [])\<close>.\<close>

definition env_declarations :: "pyval \<Rightarrow> exn + pyval" where
  "env_declarations parsed =
     (case py_get parsed ''workflow'' (PDict []) of
        Inl e \<Rightarrow> Inl e
      | Inr workflow \<Rightarrow> py_get workflow ''environment'' (PList []))"

text \<open>
  The function itself. \<open>safe_load\<close> stands for \<^verbatim>\<open>yaml.safe_load\<close> (the document,
  or the text of the \<^verbatim>\<open>YAMLError\<close>) and \<open>getenv\<close> for \<^verbatim>\<open>os.getenv\<close>. The
  result is the exception raised, or the lines echoed together with the list returned.
\<close>

definition gather_environment_variables ::
  "(string \<Rightarrow> string + pyval) \<Rightarrow> (string \<Rightarrow> string option) \<Rightarrow> string \<Rightarrow> string list
     \<Rightarrow> exn + (string list \<times> pyval list)" where
  "gather_environment_variables safe_load getenv yaml_content cli_overrides =
     (case safe_load yaml_content of
        Inl e \<Rightarrow> Inl (ClickException (''Invalid YAML: '' @ e))
      | Inr parsed \<Rightarrow>
     (case env_declarations parsed of
        Inl e \<Rightarrow> Inl e
      | Inr env_decls \<Rightarrow>
        if \<not> truthy env_decls then
          (case apply_overrides [] cli_overrides of
             Inl e \<Rightarrow> Inl e
           | Inr env_dict \<Rightarrow> Inr ([], map (\<lambda>(name, val). env_object name val False) env_dict))
        else
     (case py_iter env_decls of
        Inl e \<Rightarrow> Inl e
      | Inr decls \<Rightarrow>
     (case scan_declarations getenv decls ([], [], {}) of
        Inl e \<Rightarrow> Inl e
      | Inr (env_vars, missing, secret_vars) \<Rightarrow>
     (case apply_overrides env_vars cli_overrides of
        Inl e \<Rightarrow> Inl e
      | Inr env_vars' \<Rightarrow>
     (case missing of
        first # _ \<Rightarrow> Inl (ClickException (missing_message first missing))
      | [] \<Rightarrow>
          Inr (display_environment env_vars' secret_vars,
               map (\<lambda>(name, val). env_object name val (name \<in> secret_vars)) env_vars')))))))"

section \<open>The command layer (main.py)\<close>

text \<open>
  What a command writes is kept as a list of echoes. An echoed text is a list of
  fragments: literal text, \<^verbatim>\<open>str(v)\<close> of a value formatted into an f-string, or
  \<^verbatim>\<open>json.dumps(v, indent=2)\<close>; the two conversions are left symbolic. Colours
  (\<^verbatim>\<open>click.style\<close>) are not kept. An exception no handler catches ends the process
  with a traceback.
\<close>

datatype frag = Lit string | Str pyval | Json pyval

datatype echo = Out "frag list" | Err "frag list" | Traceback exn

text \<open>
  What a command reads from outside: the process environment, the file system
  (\<^verbatim>\<open>Path.exists\<close>, and \<^verbatim>\<open>Path.read_text\<close> giving the content or the text of the
  exception), the YAML parser, the remote service, and the answer
  \<^verbatim>\<open>click.confirm\<close> returns for a prompt.
\<close>

record world =
  w_getenv :: "string \<Rightarrow> string option"
  w_exists :: "string \<Rightarrow> bool"
  w_read_text :: "string \<Rightarrow> string + string"
  w_safe_load :: "string \<Rightarrow> string + pyval"
  w_srv :: server
  w_confirm :: "frag list \<Rightarrow> bool"

text \<open>
  What a command leaves behind: the exit code of the process (0 when the command
  returns, 1 after \<^verbatim>\<open>sys.exit(1)\<close> or an uncaught exception), the echoes, and the
  payloads posted to the service, in order.
\<close>

record outcome =
  exit_code :: int
  echoed :: "echo list"
  requests :: "pyval list"

definition check_mark :: string where
  "check_mark = [CHR 0xE2, CHR 0x9C, CHR 0x93, CHR '' '']"

definition api_key_missing :: api_error where
  "api_key_missing =
     APIError ''API key not provided. Set ETLR_API_KEY environment variable or pass api_key parameter.''
       None None"

text \<open>
  \<^verbatim>\<open>WorkflowsClient.__init__\<close>: the key is \<^verbatim>\<open>api_key or os.getenv("ETLR_API_KEY")\<close>,
  and a key that is None or empty raises.
\<close>

definition WorkflowsClient :: "(string \<Rightarrow> string option) \<Rightarrow> string option \<Rightarrow> api_error + string" where
  "WorkflowsClient getenv api_key =
     (case (if truthy (of_opt api_key) then api_key else getenv ''ETLR_API_KEY'') of
        None \<Rightarrow> Inl api_key_missing
      | Some k \<Rightarrow> if k = [] then Inl api_key_missing else Inr k)"

text \<open>\<^verbatim>\<open>get_client\<close> echoes the error of a failed construction and exits with 1.\<close>

definition no_client :: "api_error \<Rightarrow> outcome" where
  "no_client e = \<lparr>exit_code = 1, echoed = [Err [Lit ''Error: '', Lit (message e)]], requests = []\<rparr>"

definition handle_api_error :: "api_error \<Rightarrow> echo list \<Rightarrow> pyval list \<Rightarrow> outcome" where
  "handle_api_error e out sent =
     \<lparr>exit_code = 1,
      echoed = out @ [Err [Lit ''Error: '', Lit (message e)]]
        @ (case status_code e of
             Some c \<Rightarrow> if c \<noteq> 0 then [Err [Lit ''Status Code: '', Str (PInt c)]] else []
           | None \<Rightarrow> [])
        @ (case details e of
             Some d \<Rightarrow> if truthy d then [Err [Lit ''Details: '', Json d]] else []
           | None \<Rightarrow> []),
      requests = sent\<rparr>"

definition exit_1 :: "echo list \<Rightarrow> pyval list \<Rightarrow> outcome" where
  "exit_1 out sent = \<lparr>exit_code = 1, echoed = out, requests = sent\<rparr>"

definition uncaught :: "exn \<Rightarrow> echo list \<Rightarrow> pyval list \<Rightarrow> outcome" where
  "uncaught x out sent = \<lparr>exit_code = 1, echoed = out @ [Traceback x], requests = sent\<rparr>"

definition aborted :: outcome where
  "aborted = \<lparr>exit_code = 0, echoed = [Out [Lit ''Aborted.'']], requests = []\<rparr>"

subsection \<open>delete\<close>

definition delete_prompt :: "string option \<Rightarrow> string option \<Rightarrow> string option \<Rightarrow> frag list" where
  "delete_prompt workflow_id name stage =
     [Lit (''Are you sure you want to delete workflow '' @ [CHR 0x27])]
     @ (if truthy (of_opt workflow_id) then [Str (of_opt workflow_id)]
        else [Str (of_opt name), Lit ''/'', Str (of_opt stage)])
     @ [Lit (CHR 0x27 # ''?'')]"

definition delete ::
  "world \<Rightarrow> string option \<Rightarrow> string option \<Rightarrow> string option \<Rightarrow> string option \<Rightarrow> bool \<Rightarrow> outcome" where
  "delete w api_key workflow_id name stage yes =
     (if \<not> yes \<and> \<not> w_confirm w (delete_prompt workflow_id name stage) then aborted
      else
        (case WorkflowsClient (w_getenv w) api_key of
           Inl e \<Rightarrow> no_client e
         | Inr client \<Rightarrow>
             (case delete_workflow (w_srv w) [] (of_opt workflow_id) (of_opt name) (of_opt stage) of
                (sent, Inr result) \<Rightarrow>
                  \<lparr>exit_code = 0,
                   echoed = [Out [Lit (check_mark @ ''Workflow deleted'')], Out [Json (PDict result)]],
                   requests = sent\<rparr>
              | (sent, Inl e) \<Rightarrow> handle_api_error e [] sent)))"

subsection \<open>restore\<close>

definition restore_prompt :: "int \<Rightarrow> frag list" where
  "restore_prompt version =
     [Lit ''Are you sure you want to restore workflow to version '', Str (PInt version), Lit ''?'']"

definition restore :: "world \<Rightarrow> string option \<Rightarrow> string \<Rightarrow> int \<Rightarrow> bool \<Rightarrow> outcome" where
  "restore w api_key workflow_id version yes =
     (if \<not> yes \<and> \<not> w_confirm w (restore_prompt version) then aborted
      else
        (case WorkflowsClient (w_getenv w) api_key of
           Inl e \<Rightarrow> no_client e
         | Inr client \<Rightarrow>
             (case restore_version (w_srv w) [] workflow_id version of
                (sent, Inl e) \<Rightarrow> handle_api_error e [] sent
              | (sent, Inr result) \<Rightarrow>
                  (let out1 = [Out [Lit (check_mark @ ''Workflow restored to version ''), Str (PInt version)]]
                   in case map_of result (PStr ''workflow'') of
                        None \<Rightarrow>
                          \<lparr>exit_code = 0, echoed = out1 @ [Out [Json (PDict result)]], requests = sent\<rparr>
                      | Some wflow \<Rightarrow>
                          (case py_get wflow ''version'' PNone of
                             Inl x \<Rightarrow> uncaught x out1 sent
                           | Inr new_version \<Rightarrow>
                               \<lparr>exit_code = 0,
                                echoed = out1
                                  @ (if truthy new_version
                                     then [Out [Lit ''New version created: '', Str new_version]] else [])
                                  @ [Out [Json (PDict result)]],
                                requests = sent\<rparr>)))))"

subsection \<open>deploy\<close>

text \<open>The last part of \<^verbatim>\<open>deploy\<close>, under the comment "Deploy the workflow".\<close>

definition deploy_phase :: "world \<Rightarrow> echo list \<Rightarrow> pyval list \<Rightarrow> pyval \<Rightarrow> pyval \<Rightarrow> pyval \<Rightarrow> outcome" where
  "deploy_phase w out sent workflow_id deploy_name deploy_stage =
     (let identifier =
            (if truthy deploy_name \<and> truthy deploy_stage
             then [Lit '' '', Str deploy_name, Lit ''/'', Str deploy_stage] else []);
          out1 = out @ [Out ([Lit ''Deploying workflow''] @ identifier @ [Lit ''...''])]
      in case deploy_workflow (w_srv w) sent workflow_id deploy_name deploy_stage of
           (sent', Inr result) \<Rightarrow>
             \<lparr>exit_code = 0,
              echoed = out1 @ [Out [Lit (check_mark @ ''Workflow deployed and running'')],
                              Out [Json (PDict result)]],
              requests = sent'\<rparr>
         | (sent', Inl e) \<Rightarrow> handle_api_error e out1 sent')"

text \<open>The part under the comment "Push the workflow".\<close>

definition push_phase :: "world \<Rightarrow> echo list \<Rightarrow> string \<Rightarrow> pyval list \<Rightarrow> string option \<Rightarrow> outcome" where
  "push_phase w out yaml_content env_dict stage =
     (let out1 = out @ [Out (if truthy (of_opt stage)
                             then [Lit ''Pushing workflow (stage override: '', Str (of_opt stage), Lit '')...'']
                             else [Lit ''Pushing workflow...''])]
      in case upsert_workflow (w_srv w) [] yaml_content
                (if env_dict \<noteq> [] then PList env_dict else PNone) (of_opt stage) of
           (sent, Inl e) \<Rightarrow> handle_api_error e out1 sent
         | (sent, Inr push_result) \<Rightarrow>
             (let out2 = out1 @ [Out [Lit (check_mark @
                                     (if truthy (dict_get push_result ''created'' PNone)
                                      then ''Workflow created'' else ''Workflow updated''))]];
                  workflow_info = dict_get push_result ''workflow'' (PDict [])
              in case py_get workflow_info ''id'' PNone of
                   Inl x \<Rightarrow> uncaught x out2 sent
                 | Inr workflow_id \<Rightarrow>
                (case py_get workflow_info ''name'' PNone of
                   Inl x \<Rightarrow> uncaught x out2 sent
                 | Inr deploy_name \<Rightarrow>
                (case py_get workflow_info ''stage'' PNone of
                   Inl x \<Rightarrow> uncaught x out2 sent
                 | Inr deploy_stage \<Rightarrow>
                     if \<not> truthy workflow_id then
                       exit_1 (out2 @ [Err [Lit ''Error: Could not get workflow ID from push response'']]) sent
                     else deploy_phase w out2 sent workflow_id deploy_name deploy_stage))))"

text \<open>
  Whether \<^verbatim>\<open>deploy\<close> pushes a file first: a file is given, or neither an id nor a
  name is.
\<close>

definition file_based :: "string option \<Rightarrow> string option \<Rightarrow> string option \<Rightarrow> bool" where
  "file_based yaml_file workflow_id name =
     (yaml_file \<noteq> None \<or> (\<not> truthy (of_opt workflow_id) \<and> \<not> truthy (of_opt name)))"

text \<open>The file \<^verbatim>\<open>deploy\<close> reads: the one given, else \<^verbatim>\<open>workflow.yaml\<close> if it exists.\<close>

definition workflow_file :: "world \<Rightarrow> string option \<Rightarrow> string option" where
  "workflow_file w yaml_file =
     (case yaml_file of
        Some f \<Rightarrow> Some f
      | None \<Rightarrow> if w_exists w ''workflow.yaml'' then Some ''workflow.yaml'' else None)"

definition deploy ::
  "world \<Rightarrow> string option \<Rightarrow> string option \<Rightarrow> string option \<Rightarrow> string option \<Rightarrow> string option
     \<Rightarrow> string list \<Rightarrow> outcome" where
  "deploy w api_key yaml_file workflow_id name stage env =
     (case WorkflowsClient (w_getenv w) api_key of
        Inl e \<Rightarrow> no_client e
      | Inr client \<Rightarrow>
          if file_based yaml_file workflow_id name then
            (case workflow_file w yaml_file of
               None \<Rightarrow>
                 exit_1 [Err [Lit (''Error: No workflow.yaml found in current directory. ''
                                   @ ''Provide a file or use --id/--name flags.'')]] []
             | Some path \<Rightarrow>
            (case w_read_text w path of
               Inl e \<Rightarrow> exit_1 [Err [Lit ''Error reading file: '', Lit e]] []
             | Inr yaml_content \<Rightarrow>
            (case gather_environment_variables (w_safe_load w) (w_getenv w) yaml_content env of
               Inl (ClickException m) \<Rightarrow> exit_1 [Err [Lit ''Error: '', Lit m]] []
             | Inl x \<Rightarrow> uncaught x [] []
             | Inr (shown, env_dict) \<Rightarrow>
                 push_phase w (map (\<lambda>l. Out [Lit l]) shown) yaml_content env_dict stage)))
          else deploy_phase w [] [] (of_opt workflow_id) (of_opt name) (of_opt stage))"

text \<open>
  The \<^verbatim>\<open>--stage\<close> option of \<^verbatim>\<open>deploy\<close> is declared with
  \<^verbatim>\<open>envvar="ETLR_STAGE"\<close>: click passes the value given on the command line, else
  the value of the environment variable when it is set and not empty, else None.
\<close>

definition click_option :: "(string \<Rightarrow> string option) \<Rightarrow> string \<Rightarrow> string option \<Rightarrow> string option" where
  "click_option getenv envvar flag =
     (case flag of
        Some v \<Rightarrow> Some v
      | None \<Rightarrow> (case getenv envvar of
                   Some v \<Rightarrow> if v \<noteq> [] then Some v else None
                 | None \<Rightarrow> None))"

text \<open>
  The \<^verbatim>\<open>YAML_FILE\<close> argument is declared \<^verbatim>\<open>click.Path(exists=True)\<close>: a path
  that does not exist is a usage error of click, which ends the process with exit code 2
  before \<^verbatim>\<open>deploy\<close> runs (the usage lines click prints first are not kept).
\<close>

definition bad_yaml_file :: "string \<Rightarrow> outcome" where
  "bad_yaml_file path =
     \<lparr>exit_code = 2,
      echoed = [Err [Lit (''Error: Invalid value for '' @ [CHR 0x27] @ ''[YAML_FILE]'' @ [CHR 0x27]
                          @ '': Path '' @ [CHR 0x27] @ path @ [CHR 0x27] @ '' does not exist.'')]],
      requests = []\<rparr>"

definition deploy_command ::
  "world \<Rightarrow> string option \<Rightarrow> string option \<Rightarrow> string option \<Rightarrow> string option \<Rightarrow> string option
     \<Rightarrow> string list \<Rightarrow> outcome" where
  "deploy_command w api_key yaml_file workflow_id name stage_flag env =
     (case yaml_file of
        Some path \<Rightarrow>
          if \<not> w_exists w path then bad_yaml_file path
          else deploy w api_key yaml_file workflow_id name
                 (click_option (w_getenv w) ''ETLR_STAGE'' stage_flag) env
      | None \<Rightarrow>
          deploy w api_key yaml_file workflow_id name
            (click_option (w_getenv w) ''ETLR_STAGE'' stage_flag) env)"

section \<open>Notions used in the statements\<close>

text \<open>
  The value the overrides give a key: that of the last \<^verbatim>\<open>KEY=VALUE\<close> item with
  this key, since every item assigns \<^verbatim>\<open>env_vars[key]\<close> in turn.
\<close>

definition last_override :: "string list \<Rightarrow> string \<Rightarrow> string option" where
  "last_override cli_overrides key = map_of (rev (map split_eq cli_overrides)) key"

text \<open>
  A name is declared secret by a list of declarations when it is not empty and some
  entry of the list is a mapping with this name whose \<^verbatim>\<open>secret\<close> field is true.
\<close>

definition declared_secret :: "pyval list \<Rightarrow> string \<Rightarrow> bool" where
  "declared_secret decls n =
     (n \<noteq> [] \<and>
      list_ex (\<lambda>d. case d of
                 PDict kvs \<Rightarrow>
                   dict_get kvs ''name'' PNone = PStr n \<and> truthy (dict_get kvs ''secret'' (PBool False))
               | _ \<Rightarrow> False) decls)"

text \<open>
  The workflow file of the repository's tests, as parsed: stage dev, and two declared
  variables, of which \<^verbatim>\<open>API_KEY\<close> is secret. With it, a process environment that
  defines both, the same document without its environment section, and a service that
  answers an upsert with the workflow's id, name and stage.
\<close>

definition example_declarations :: "pyval list" where
  "example_declarations =
     [PDict [(PStr ''name'', PStr ''API_KEY''), (PStr ''secret'', PBool True)],
      PDict [(PStr ''name'', PStr ''LOG_LEVEL''), (PStr ''secret'', PBool False)]]"

definition example_doc :: pyval where
  "example_doc =
     PDict [(PStr ''workflow'',
       PDict [(PStr ''name'', PStr ''test-workflow''), (PStr ''stage'', PStr ''dev''),
              (PStr ''environment'', PList example_declarations)])]"

definition plain_doc :: pyval where
  "plain_doc =
     PDict [(PStr ''workflow'',
       PDict [(PStr ''name'', PStr ''test-workflow''), (PStr ''stage'', PStr ''dev'')])]"

text \<open>A document whose only declaration writes its secret field as the string 'false'.\<close>

definition quoted_doc :: pyval where
  "quoted_doc =
     PDict [(PStr ''workflow'',
       PDict [(PStr ''name'', PStr ''test-workflow''), (PStr ''stage'', PStr ''dev''),
              (PStr ''environment'',
                 PList [PDict [(PStr ''name'', PStr ''API_KEY''), (PStr ''secret'', PStr ''false'')]])])]"

definition example_env :: "string \<Rightarrow> string option" where
  "example_env = [''API_KEY'' \<mapsto> ''secret-key-123'', ''LOG_LEVEL'' \<mapsto> ''info'']"

definition example_srv :: server where
  "example_srv sent payload =
     (case payload of
        PDict kvs \<Rightarrow>
          if map_of kvs (PStr ''action'') = Some (PStr ''upsert'') then
            Inr [(PStr ''created'', PBool True),
                 (PStr ''workflow'',
                    PDict [(PStr ''id'', PStr ''123''), (PStr ''name'', PStr ''test-workflow''),
                           (PStr ''stage'', PStr ''dev'')])]
          else Inr [(PStr ''status'', PStr ''deployed'')]
      | _ \<Rightarrow> Inl (APIError ''HTTP 400'' (Some 400) None))"

definition example_world :: "pyval \<Rightarrow> (string \<Rightarrow> string option) \<Rightarrow> bool \<Rightarrow> world" where
  "example_world doc env answer =
     \<lparr>w_getenv = env,
      w_exists = (\<lambda>path. path = ''workflow.yaml''),
      w_read_text = (\<lambda>path. if path = ''workflow.yaml'' then Inr ''workflow: ...'' else Inl ''No such file''),
      w_safe_load = (\<lambda>text. Inr doc),
      w_srv = example_srv,
      w_confirm = (\<lambda>prompt. answer)\<rparr>"

text \<open>
  The payload \<^verbatim>\<open>upsert_workflow\<close> posts when \<^verbatim>\<open>deploy\<close> calls it with the
  file's content, the reconciled list (None when it is empty) and the stage option.
\<close>

definition upsert_payload :: "string \<Rightarrow> pyval list \<Rightarrow> string option \<Rightarrow> pyval" where
  "upsert_payload yaml_content env_dict stage =
     PDict ([(PStr ''action'', PStr ''upsert''), (PStr ''workflow_yaml'', PStr yaml_content)]
        @ (if env_dict \<noteq> [] then [(PStr ''env'', PList env_dict)] else [])
        @ (case stage of
             Some s \<Rightarrow> if s \<noteq> [] then [(PStr ''stage'', PStr s)] else []
           | None \<Rightarrow> []))"

definition staged_env :: "string \<Rightarrow> string option" where
  "staged_env = example_env(''ETLR_STAGE'' \<mapsto> ''staging'')"

section \<open>Identifier resolution\<close>

lemma identifier_operations_cases:
  assumes "(op, action) \<in> set identifier_operations"
  shows "op srv sent workflow_id name stage =
     (if truthy workflow_id then request srv sent (by_id action workflow_id)
      else if truthy name \<and> truthy stage then request srv sent (by_name_stage action name stage)
      else (sent, Inl missing_identifier))"
  using assms
  by (auto simp: identifier_operations_def get_workflow_def delete_workflow_def
      deploy_workflow_def stop_workflow_def get_status_def by_id_def by_name_stage_def)

text \<open>
  Claim C2. For get_workflow, delete_workflow, deploy_workflow, stop_workflow and
  get_status: when a workflow id is given (a value Python takes as true), exactly one
  request is posted and its payload holds the action and the workflow_id only, whatever
  name and stage are; otherwise, when name and stage are both given, the one request
  posted holds the action, the name and the stage; otherwise the operation raises
  APIError and the list of posted requests is unchanged.
\<close>

theorem identifier_resolution_policy:
  assumes "(op, action) \<in> set identifier_operations"
  shows "(truthy workflow_id \<longrightarrow>
            op srv sent workflow_id name stage =
              (sent @ [PDict [(PStr ''action'', PStr action), (PStr ''workflow_id'', workflow_id)]],
               srv sent (PDict [(PStr ''action'', PStr action), (PStr ''workflow_id'', workflow_id)])))
       \<and> (\<not> truthy workflow_id \<and> truthy name \<and> truthy stage \<longrightarrow>
            op srv sent workflow_id name stage =
              (sent @ [PDict [(PStr ''action'', PStr action), (PStr ''name'', name), (PStr ''stage'', stage)]],
               srv sent (PDict [(PStr ''action'', PStr action), (PStr ''name'', name), (PStr ''stage'', stage)])))
       \<and> (\<not> truthy workflow_id \<and> \<not> (truthy name \<and> truthy stage) \<longrightarrow>
            op srv sent workflow_id name stage =
              (sent, Inl (APIError ''Must provide either workflow_id or both name and stage'' None None)))"
  using identifier_operations_cases [OF assms, of srv sent workflow_id name stage]
  by (simp add: request_def by_id_def by_name_stage_def missing_identifier_def)

theorem identifier_resolution_policy_witness:
  "(deploy_workflow, ''deploy'') \<in> set identifier_operations
   \<and> truthy (PStr ''w-1'')
   \<and> deploy_workflow (\<lambda>_ _. Inr []) [] (PStr ''w-1'') (PStr ''etl'') (PStr ''prod'') =
       ([PDict [(PStr ''action'', PStr ''deploy''), (PStr ''workflow_id'', PStr ''w-1'')]], Inr [])
   \<and> \<not> truthy PNone \<and> truthy (PStr ''etl'') \<and> truthy (PStr ''prod'')
   \<and> deploy_workflow (\<lambda>_ _. Inr []) [] PNone (PStr ''etl'') (PStr ''prod'') =
       ([PDict [(PStr ''action'', PStr ''deploy''), (PStr ''name'', PStr ''etl''),
                (PStr ''stage'', PStr ''prod'')]], Inr [])
   \<and> deploy_workflow (\<lambda>_ _. Inr []) [] PNone (PStr ''etl'') PNone =
       ([], Inl (APIError ''Must provide either workflow_id or both name and stage'' None None))"
proof -
  have m: "(deploy_workflow, ''deploy'') \<in> set identifier_operations"
    by (simp add: identifier_operations_def)
  show ?thesis
    using m
      identifier_resolution_policy [OF m, of "PStr ''w-1''" "\<lambda>_ _. Inr []" "[]" "PStr ''etl''" "PStr ''prod''"]
      identifier_resolution_policy [OF m, of PNone "\<lambda>_ _. Inr []" "[]" "PStr ''etl''" "PStr ''prod''"]
      identifier_resolution_policy [OF m, of PNone "\<lambda>_ _. Inr []" "[]" "PStr ''etl''" PNone]
    by simp
qed

text \<open>
  Claim C9. The identifier arguments are tested for truth, not for presence: an empty
  string as workflow_id behaves as None (resolution falls through to name and stage, or
  raises), and an empty string as name or as stage leaves the pair incomplete even when
  the other member is a non-empty string, so the call raises the missing-identifier
  error without posting a request.
\<close>

theorem empty_identifier_not_provided:
  assumes "(op, action) \<in> set identifier_operations"
  shows "op srv sent (PStr '''') name stage = op srv sent PNone name stage
       \<and> op srv sent (PStr '''') (PStr '''') stage = (sent, Inl missing_identifier)
       \<and> op srv sent (PStr '''') name (PStr '''') = (sent, Inl missing_identifier)
       \<and> op srv sent PNone (PStr '''') stage = (sent, Inl missing_identifier)
       \<and> op srv sent PNone name (PStr '''') = (sent, Inl missing_identifier)"
  by (simp add: identifier_operations_cases [OF assms])

theorem empty_identifier_not_provided_witness:
  "(get_workflow, ''get'') \<in> set identifier_operations
   \<and> get_workflow (\<lambda>_ _. Inr []) [] (PStr '''') (PStr ''etl'') (PStr ''prod'') =
       ([PDict [(PStr ''action'', PStr ''get''), (PStr ''name'', PStr ''etl''),
                (PStr ''stage'', PStr ''prod'')]], Inr [])
   \<and> get_workflow (\<lambda>_ _. Inr []) [] (PStr '''') (PStr '''') (PStr ''prod'') =
       ([], Inl (APIError ''Must provide either workflow_id or both name and stage'' None None))
   \<and> get_workflow (\<lambda>_ _. Inr []) [] PNone (PStr ''etl'') (PStr '''') =
       ([], Inl (APIError ''Must provide either workflow_id or both name and stage'' None None))"
proof -
  have m: "(get_workflow, ''get'') \<in> set identifier_operations"
    by (simp add: identifier_operations_def)
  show ?thesis
    using m
      empty_identifier_not_provided [OF m, of "\<lambda>_ _. Inr []" "[]" "PStr ''etl''" "PStr ''prod''"]
      empty_identifier_not_provided [OF m, of "\<lambda>_ _. Inr []" "[]" "PStr ''etl''" "PStr ''prod''"]
    by (simp add: get_workflow_def request_def missing_identifier_def)
qed

section \<open>Environment reconciliation: the theorems\<close>

subsection \<open>The two loops\<close>

lemma apply_overrides_map:
  "apply_overrides env cli = Inr env' \<Longrightarrow>
     map_of env' k = (case last_override cli k of Some v \<Rightarrow> Some v | None \<Rightarrow> map_of env k)"
proof (induction cli arbitrary: env)
  case Nil
  then show ?case by (simp add: last_override_def)
next
  case (Cons item items)
  let ?k = "fst (split_eq item)" and ?v = "snd (split_eq item)"
  from Cons.prems have "apply_overrides (AList.update ?k ?v env) items = Inr env'"
    by (simp split: if_splits)
  then have "map_of env' k =
      (case last_override items k of Some v \<Rightarrow> Some v | None \<Rightarrow> map_of (AList.update ?k ?v env) k)"
    by (rule Cons.IH)
  moreover have "map_of (AList.update ?k ?v env) k = (if k = ?k then Some ?v else map_of env k)"
    by (simp add: update_conv')
  moreover have "last_override (item # items) k =
      (case last_override items k of Some v \<Rightarrow> Some v | None \<Rightarrow> if k = ?k then Some ?v else None)"
    by (simp add: last_override_def map_add_def split: option.splits)
  ultimately show ?case
    by (cases "last_override items k") (simp_all add: update_conv')
qed

lemma apply_overrides_distinct:
  "apply_overrides env cli = Inr env' \<Longrightarrow> distinct (map fst env) \<Longrightarrow> distinct (map fst env')"
  by (induction cli arbitrary: env) (auto simp: distinct_update split: if_splits)

lemma declare_variable_distinct:
  "declare_variable getenv d (E, M, S) = Inr (E', M', S') \<Longrightarrow> distinct (map fst E) \<Longrightarrow> distinct (map fst E')"
  by (auto simp: declare_variable_def Let_def distinct_update split: prod.splits if_splits pyval.splits option.splits)

lemma scan_declarations_distinct:
  "scan_declarations getenv decls (E, M, S) = Inr (E', M', S') \<Longrightarrow> distinct (map fst E) \<Longrightarrow> distinct (map fst E')"
proof (induction decls arbitrary: E M S)
  case Nil
  then show ?case by simp
next
  case (Cons d decls)
  then show ?case
    by (auto split: sum.splits dest: declare_variable_distinct)
qed

lemma declare_variable_secret:
  "declare_variable getenv d (E, M, S) = Inr (E', M', S') \<Longrightarrow> S' = S \<union> {n. declared_secret [d] n}"
  by (auto simp: declare_variable_def Let_def declared_secret_def read_declaration_def
      split: prod.splits if_splits pyval.splits option.splits)

lemma declared_secret_Cons:
  "declared_secret (d # ds) n = (declared_secret [d] n \<or> declared_secret ds n)"
  by (auto simp: declared_secret_def)

lemma scan_declarations_secret:
  "scan_declarations getenv decls (E, M, S) = Inr (E', M', S') \<Longrightarrow> S' = S \<union> {n. declared_secret decls n}"
proof (induction decls arbitrary: E M S)
  case Nil
  then show ?case by (simp add: declared_secret_def)
next
  case (Cons d decls)
  from Cons.prems obtain E1 M1 S1 where
    1: "declare_variable getenv d (E, M, S) = Inr (E1, M1, S1)" and
    2: "scan_declarations getenv decls (E1, M1, S1) = Inr (E', M', S')"
    by (auto split: sum.splits)
  have "S1 = S \<union> {n. declared_secret [d] n}" using 1 by (rule declare_variable_secret)
  moreover have "S' = S1 \<union> {n. declared_secret decls n}" using 2 by (rule Cons.IH)
  ultimately show ?case
    using declared_secret_Cons [of d decls] by auto
qed

lemma declare_variable_skip:
  "\<not> truthy (dict_get kvs ''name'' PNone) \<Longrightarrow> declare_variable getenv (PDict kvs) st = Inr st"
  by (cases st) (simp add: declare_variable_def read_declaration_def)

lemma scan_declarations_append:
  "scan_declarations getenv (xs @ ys) st =
     (case scan_declarations getenv xs st of Inl e \<Rightarrow> Inl e | Inr st' \<Rightarrow> scan_declarations getenv ys st')"
  by (induction xs arbitrary: st) (auto split: sum.splits)

lemma scan_declarations_skip:
  "\<not> truthy (dict_get kvs ''name'' PNone) \<Longrightarrow>
     scan_declarations getenv (xs @ PDict kvs # ys) st = scan_declarations getenv (xs @ ys) st"
  by (simp add: scan_declarations_append declare_variable_skip split: sum.splits)

lemma gather_success:
  assumes "gather_environment_variables safe_load getenv c cli = Inr (out, res)"
  shows "\<exists>env' S. res = map (\<lambda>(n, v). env_object n v (n \<in> S)) env'
           \<and> distinct (map fst env')
           \<and> (\<forall>k v. last_override cli k = Some v \<longrightarrow> map_of env' k = Some v)"
proof -
  from assms obtain parsed env_decls where
    p: "safe_load c = Inr parsed" and d: "env_declarations parsed = Inr env_decls"
    by (auto simp: gather_environment_variables_def split: sum.splits)
  show ?thesis
  proof (cases "truthy env_decls")
    case False
    with assms p d obtain env' where
      a: "apply_overrides [] cli = Inr env'" and r: "res = map (\<lambda>(n, v). env_object n v False) env'"
      by (auto simp: gather_environment_variables_def split: sum.splits)
    have "distinct (map fst env')"
      using apply_overrides_distinct [OF a] by simp
    moreover have "\<forall>k v. last_override cli k = Some v \<longrightarrow> map_of env' k = Some v"
      by (simp add: apply_overrides_map [OF a])
    moreover have "res = map (\<lambda>(n, v). env_object n v (n \<in> {})) env'"
      using r by simp
    ultimately show ?thesis by blast
  next
    case True
    with assms p d obtain decls E M S env' where
      s: "scan_declarations getenv decls ([], [], {}) = Inr (E, M, S)" and
      a: "apply_overrides E cli = Inr env'" and
      r: "res = map (\<lambda>(n, v). env_object n v (n \<in> S)) env'"
      by (auto simp: gather_environment_variables_def split: sum.splits list.splits)
    have "distinct (map fst E)"
      using scan_declarations_distinct [OF s] by simp
    then have "distinct (map fst env')"
      by (rule apply_overrides_distinct [OF a])
    moreover have "\<forall>k v. last_override cli k = Some v \<longrightarrow> map_of env' k = Some v"
      by (simp add: apply_overrides_map [OF a])
    ultimately show ?thesis using r by blast
  qed
qed

lemma env_object_inject [simp]:
  "env_object n v s = env_object n' v' s' \<longleftrightarrow> n = n' \<and> v = v' \<and> s = s'"
  by (auto simp: env_object_def)

lemma gather_declared:
  assumes "safe_load c = Inr parsed"
    and "env_declarations parsed = Inr (PList decls)"
    and "gather_environment_variables safe_load getenv c cli = Inr (out, res)"
  shows "\<exists>env'. res = map (\<lambda>(n, v). env_object n v (declared_secret decls n)) env'
           \<and> distinct (map fst env')
           \<and> out = (if decls = [] then [] else display_environment env' {n. declared_secret decls n})"
proof (cases "decls = []")
  case True
  with assms obtain env' where
    a: "apply_overrides [] cli = Inr env'" and r: "res = map (\<lambda>(n, v). env_object n v False) env'"
    and o: "out = []"
    by (auto simp: gather_environment_variables_def split: sum.splits)
  have "distinct (map fst env')"
    using apply_overrides_distinct [OF a] by simp
  moreover have "res = map (\<lambda>(n, v). env_object n v (declared_secret decls n)) env'"
    using r True by (simp add: declared_secret_def)
  ultimately show ?thesis using o True by auto
next
  case False
  with assms obtain E M S env' where
    s: "scan_declarations getenv decls ([], [], {}) = Inr (E, M, S)" and
    a: "apply_overrides E cli = Inr env'" and
    r: "res = map (\<lambda>(n, v). env_object n v (n \<in> S)) env'" and
    o: "out = display_environment env' S"
    by (auto simp: gather_environment_variables_def split: sum.splits list.splits)
  have S: "S = {n. declared_secret decls n}"
    using scan_declarations_secret [OF s] by simp
  have "distinct (map fst E)"
    using scan_declarations_distinct [OF s] by simp
  then have "distinct (map fst env')"
    by (rule apply_overrides_distinct [OF a])
  then show ?thesis using r o S False by auto
qed

lemma sorted_map_fst:
  fixes xs :: "('a::linorder \<times> 'b::linorder) list"
  shows "sorted xs \<Longrightarrow> sorted (map fst xs)"
  by (induction xs) (auto simp: less_eq_prod_def)

lemma declared_secret_iff:
  "declared_secret decls n \<longleftrightarrow>
     n \<noteq> [] \<and> (\<exists>kvs. PDict kvs \<in> set decls \<and> dict_get kvs ''name'' PNone = PStr n
                     \<and> truthy (dict_get kvs ''secret'' (PBool False)))"
proof -
  have "list_ex (\<lambda>d. case d of
                 PDict kvs \<Rightarrow>
                   dict_get kvs ''name'' PNone = PStr n \<and> truthy (dict_get kvs ''secret'' (PBool False))
               | _ \<Rightarrow> False) decls
        \<longleftrightarrow> (\<exists>kvs. PDict kvs \<in> set decls \<and> dict_get kvs ''name'' PNone = PStr n
                     \<and> truthy (dict_get kvs ''secret'' (PBool False)))"
    by (induction decls) (auto split: pyval.splits)
  then show ?thesis
    by (simp add: declared_secret_def)
qed

lemma example_declarations_found:
  "env_declarations example_doc = Inr (PList example_declarations)"
  by (simp add: env_declarations_def example_doc_def py_get_def dict_get_def)

lemma example_gathered:
  "gather_environment_variables (\<lambda>text. Inr example_doc) example_env ''workflow: ...''
     [''API_KEY=cli-override'', ''EXTRA=1''] =
   Inr ([CHR 0x0A # ''Environment variables:'', ''  API_KEY: *** (secret)'', ''  EXTRA: 1'',
         ''  LOG_LEVEL: info'', []],
        [env_object ''API_KEY'' ''cli-override'' True, env_object ''LOG_LEVEL'' ''info'' False,
         env_object ''EXTRA'' ''1'' False])"
  by code_simp

subsection \<open>Missing variables\<close>

text \<open>
  Claim C1. The claim says that a declared variable that is absent from the
  environment but supplied by a CLI override does not make reconciliation fail. The
  source collects the missing names before it applies the overrides and never takes a
  name off the list again: with \<^verbatim>\<open>LOG_LEVEL\<close> declared, not defined in the
  environment and given as \<^verbatim>\<open>-e LOG_LEVEL=debug\<close>, it raises the usage error that
  names \<^verbatim>\<open>LOG_LEVEL\<close> as missing, and whose own text advises the \<^verbatim>\<open>-e\<close> flag.
\<close>

theorem override_does_not_supply_missing:
  "gather_environment_variables (\<lambda>text. Inr example_doc) [''API_KEY'' \<mapsto> ''secret-key-123'']
     ''workflow: ...'' [''LOG_LEVEL=debug''] =
   Inl (ClickException
     (''Missing required environment variables: LOG_LEVEL'' @ [CHR 0x0A]
      @ ''Set them with:'' @ [CHR 0x0A] @ ''  export LOG_LEVEL=value'' @ [CHR 0x0A]
      @ ''Or use the -e flag:'' @ [CHR 0x0A] @ ''  etlr deploy workflow.yaml -e LOG_LEVEL=value''))"
  by code_simp

subsection \<open>Overrides\<close>

text \<open>
  Claim C3. When reconciliation returns a list, every name the CLI overrides give a
  value (the last \<^verbatim>\<open>KEY=VALUE\<close> item of that name) has an object in the list with
  exactly that value, and no object of that name carries another value: neither the
  value the environment has for a declared name, nor that of an earlier override. Nothing
  is assumed of the declarations, so an override of an undeclared name appears as well.
\<close>

theorem override_takes_precedence:
  assumes "gather_environment_variables safe_load getenv yaml_content cli_overrides = Inr (out, res)"
    and "last_override cli_overrides key = Some val"
  shows "(\<exists>s. env_object key val s \<in> set res)
       \<and> (\<forall>v s. env_object key v s \<in> set res \<longrightarrow> v = val)"
proof -
  from gather_success [OF assms(1)] obtain env' S where
    r: "res = map (\<lambda>(n, v). env_object n v (n \<in> S)) env'" and
    dist: "distinct (map fst env')" and
    m: "map_of env' key = Some val"
    using assms(2) by blast
  from m have "(key, val) \<in> set env'" by (rule map_of_SomeD)
  then have "env_object key val (key \<in> S) \<in> set res"
    unfolding r by force
  moreover have "v = val" if "env_object key v s \<in> set res" for v s
  proof -
    from that have "(key, v) \<in> set env'" unfolding r by auto
    with dist have "map_of env' key = Some v" by simp
    with m show ?thesis by simp
  qed
  ultimately show ?thesis by blast
qed

theorem override_takes_precedence_witness:
  "last_override [''API_KEY=cli-override'', ''EXTRA=1''] ''API_KEY'' = Some ''cli-override''
   \<and> last_override [''API_KEY=cli-override'', ''EXTRA=1''] ''EXTRA'' = Some ''1''
   \<and> example_env ''API_KEY'' = Some ''secret-key-123''
   \<and> (\<exists>out res.
         gather_environment_variables (\<lambda>text. Inr example_doc) example_env ''workflow: ...''
           [''API_KEY=cli-override'', ''EXTRA=1''] = Inr (out, res)
         \<and> (\<exists>s. env_object ''API_KEY'' ''cli-override'' s \<in> set res)
         \<and> (\<exists>s. env_object ''EXTRA'' ''1'' s \<in> set res)
         \<and> env_object ''API_KEY'' ''secret-key-123'' True \<notin> set res)"
proof -
  have a: "last_override [''API_KEY=cli-override'', ''EXTRA=1''] ''API_KEY'' = Some ''cli-override''"
    by (simp add: last_override_def split_eq_def)
  have b: "last_override [''API_KEY=cli-override'', ''EXTRA=1''] ''EXTRA'' = Some ''1''"
    by (simp add: last_override_def split_eq_def)
  have c: "example_env ''API_KEY'' = Some ''secret-key-123''"
    by (simp add: example_env_def)
  from override_takes_precedence [OF example_gathered a]
    override_takes_precedence [OF example_gathered b]
  show ?thesis
    using a b c example_gathered by fastforce
qed

subsection \<open>Secret flags\<close>

text \<open>
  Claim C4, as the code has it. The claim has the flag true only for a declaration with
  \<^verbatim>\<open>secret: true\<close>; the source tests the declared value for truth, so that a
  declaration with the string \<^verbatim>\<open>'false'\<close> is flagged secret, as the counterexample
  below shows. When reconciliation returns a list for a document whose
  \<^verbatim>\<open>workflow.environment\<close> is a list of declarations, every element of the list is a
  dict with exactly the fields name, value and secret, in this order, and its secret field
  is the boolean that is true exactly when some declaration in mapping form carries this
  name with a \<^verbatim>\<open>secret\<close> field Python takes as true. A declaration in bare-string
  form and a name no declaration carries therefore give false. The flag is a function of
  the declarations and the name alone: neither the environment nor the overrides, which
  decide the value, enter it.
\<close>

theorem secret_flag_from_declaration:
  assumes "safe_load yaml_content = Inr parsed"
    and "env_declarations parsed = Inr (PList decls)"
    and "gather_environment_variables safe_load getenv yaml_content cli_overrides = Inr (out, res)"
  shows "\<exists>items. res =
           map (\<lambda>(name, val).
                  PDict [(PStr ''name'', PStr name), (PStr ''value'', PStr val),
                         (PStr ''secret'',
                          PBool (name \<noteq> [] \<and>
                                 (\<exists>kvs. PDict kvs \<in> set decls
                                        \<and> dict_get kvs ''name'' PNone = PStr name
                                        \<and> truthy (dict_get kvs ''secret'' (PBool False)))))]) items"
  using gather_declared [OF assms] unfolding declared_secret_iff env_object_def by blast

theorem secret_flag_from_declaration_witness:
  "(\<lambda>text. Inr example_doc) ''workflow: ...'' = (Inr example_doc :: string + pyval)
   \<and> env_declarations example_doc = Inr (PList example_declarations)
   \<and> (\<exists>out items.
         gather_environment_variables (\<lambda>text. Inr example_doc) example_env ''workflow: ...''
           [''API_KEY=cli-override'', ''EXTRA=1''] =
           Inr (out,
             [PDict [(PStr ''name'', PStr ''API_KEY''), (PStr ''value'', PStr ''cli-override''),
                     (PStr ''secret'', PBool True)],
              PDict [(PStr ''name'', PStr ''LOG_LEVEL''), (PStr ''value'', PStr ''info''),
                     (PStr ''secret'', PBool False)],
              PDict [(PStr ''name'', PStr ''EXTRA''), (PStr ''value'', PStr ''1''),
                     (PStr ''secret'', PBool False)]])
         \<and> [PDict [(PStr ''name'', PStr ''API_KEY''), (PStr ''value'', PStr ''cli-override''),
                     (PStr ''secret'', PBool True)],
              PDict [(PStr ''name'', PStr ''LOG_LEVEL''), (PStr ''value'', PStr ''info''),
                     (PStr ''secret'', PBool False)],
              PDict [(PStr ''name'', PStr ''EXTRA''), (PStr ''value'', PStr ''1''),
                     (PStr ''secret'', PBool False)]] =
             map (\<lambda>(name, val).
                    PDict [(PStr ''name'', PStr name), (PStr ''value'', PStr val),
                           (PStr ''secret'',
                            PBool (name \<noteq> [] \<and>
                                   (\<exists>kvs. PDict kvs \<in> set example_declarations
                                          \<and> dict_get kvs ''name'' PNone = PStr name
                                          \<and> truthy (dict_get kvs ''secret'' (PBool False)))))]) items)"
proof -
  let ?res = "[PDict [(PStr ''name'', PStr ''API_KEY''), (PStr ''value'', PStr ''cli-override''),
                     (PStr ''secret'', PBool True)],
              PDict [(PStr ''name'', PStr ''LOG_LEVEL''), (PStr ''value'', PStr ''info''),
                     (PStr ''secret'', PBool False)],
              PDict [(PStr ''name'', PStr ''EXTRA''), (PStr ''value'', PStr ''1''),
                     (PStr ''secret'', PBool False)]]"
  have p: "(\<lambda>text. Inr example_doc) ''workflow: ...'' = (Inr example_doc :: string + pyval)"
    by simp
  have g: "gather_environment_variables (\<lambda>text. Inr example_doc) example_env ''workflow: ...''
           [''API_KEY=cli-override'', ''EXTRA=1''] =
           Inr ([CHR 0x0A # ''Environment variables:'', ''  API_KEY: *** (secret)'', ''  EXTRA: 1'',
                 ''  LOG_LEVEL: info'', []], ?res)"
    using example_gathered by (simp add: env_object_def)
  from secret_flag_from_declaration [OF p example_declarations_found g]
  obtain items where
    "?res =
     map (\<lambda>(name, val).
            PDict [(PStr ''name'', PStr name), (PStr ''value'', PStr val),
                   (PStr ''secret'',
                    PBool (name \<noteq> [] \<and>
                           (\<exists>kvs. PDict kvs \<in> set example_declarations
                                  \<and> dict_get kvs ''name'' PNone = PStr name
                                  \<and> truthy (dict_get kvs ''secret'' (PBool False)))))]) items" ..
  then show ?thesis
    using example_declarations_found g by auto
qed

text \<open>
  The counterexample to C4 as stated: the only declaration of \<^verbatim>\<open>API_KEY\<close> writes
  \<^verbatim>\<open>secret: 'false'\<close>, a string and not the boolean true, and the returned object
  carries the secret flag true.
\<close>

theorem quoted_false_is_secret:
  "env_declarations quoted_doc =
     Inr (PList [PDict [(PStr ''name'', PStr ''API_KEY''), (PStr ''secret'', PStr ''false'')]])
   \<and> gather_environment_variables (\<lambda>text. Inr quoted_doc) example_env ''workflow: ...'' [] =
       Inr ([CHR 0x0A # ''Environment variables:'', ''  API_KEY: *** (secret)'', []],
            [PDict [(PStr ''name'', PStr ''API_KEY''), (PStr ''value'', PStr ''secret-key-123''),
                    (PStr ''secret'', PBool True)]])"
  by code_simp

subsection \<open>The summary\<close>

text \<open>
  Claim C8, as the code has it. The claim promises the summary whenever reconciliation
  succeeds with a non-empty result; the branch for a document without declarations
  returns the overrides and echoes nothing, as the counterexample below shows. For
  a document with a non-empty list of declarations, a successful reconciliation with a
  non-empty result echoes a header, one line for each returned variable and an empty
  line; the lines are sorted by name and no name has two lines. The line of a variable
  declared secret is its name followed by \<^verbatim>\<open>*** (secret)\<close> and is built without the
  value; the line of any other variable shows the value verbatim.
\<close>

theorem summary_masks_secrets:
  assumes "safe_load yaml_content = Inr parsed"
    and "env_declarations parsed = Inr (PList decls)"
    and "decls \<noteq> []"
    and "gather_environment_variables safe_load getenv yaml_content cli_overrides = Inr (out, res)"
    and "res \<noteq> []"
  shows "\<exists>items.
           out = [CHR 0x0A # ''Environment variables:'']
                 @ map (\<lambda>(name, val). if declared_secret decls name
                                        then ''  '' @ name @ '': *** (secret)''
                                        else ''  '' @ name @ '': '' @ val) items
                 @ [[]]
         \<and> sorted (map fst items) \<and> distinct (map fst items)
         \<and> set res = (\<lambda>(name, val). env_object name val (declared_secret decls name)) ` set items
         \<and> length items = length res"
proof -
  from gather_declared [OF assms(1,2,4)] assms(3) obtain env' where
    r: "res = map (\<lambda>(n, v). env_object n v (declared_secret decls n)) env'" and
    dist: "distinct (map fst env')" and
    o: "out = display_environment env' {n. declared_secret decls n}"
    by auto
  from r assms(5) have ne: "env' \<noteq> []" by auto
  let ?items = "sort env'"
  have "out = [CHR 0x0A # ''Environment variables:'']
                 @ map (\<lambda>(name, val). if declared_secret decls name
                                        then ''  '' @ name @ '': *** (secret)''
                                        else ''  '' @ name @ '': '' @ val) ?items
                 @ [[]]"
    using o ne by (simp add: display_environment_def display_line_def case_prod_beta)
  moreover have "sorted (map fst ?items)"
    by (rule sorted_map_fst) simp
  moreover have "distinct (map fst ?items)"
    using dist by (simp add: distinct_map)
  moreover have "set res = (\<lambda>(name, val). env_object name val (declared_secret decls name)) ` set ?items"
    using r by simp
  moreover have "length ?items = length res"
    using r by simp
  ultimately show ?thesis by blast
qed

theorem summary_masks_secrets_witness:
  "(\<lambda>text. Inr example_doc) ''workflow: ...'' = (Inr example_doc :: string + pyval)
   \<and> env_declarations example_doc = Inr (PList example_declarations)
   \<and> example_declarations \<noteq> []
   \<and> (\<exists>res items.
         gather_environment_variables (\<lambda>text. Inr example_doc) example_env ''workflow: ...''
           [''API_KEY=cli-override'', ''EXTRA=1''] =
           Inr ([CHR 0x0A # ''Environment variables:'', ''  API_KEY: *** (secret)'', ''  EXTRA: 1'',
                 ''  LOG_LEVEL: info'', []], res)
         \<and> res \<noteq> []
         \<and> [CHR 0x0A # ''Environment variables:'', ''  API_KEY: *** (secret)'', ''  EXTRA: 1'',
              ''  LOG_LEVEL: info'', []] =
             [CHR 0x0A # ''Environment variables:'']
             @ map (\<lambda>(name, val). if declared_secret example_declarations name
                                    then ''  '' @ name @ '': *** (secret)''
                                    else ''  '' @ name @ '': '' @ val) items
             @ [[]]
         \<and> sorted (map fst items))"
proof -
  have p: "(\<lambda>text. Inr example_doc) ''workflow: ...'' = (Inr example_doc :: string + pyval)"
    by simp
  have n: "example_declarations \<noteq> []"
    by (simp add: example_declarations_def)
  have r: "[env_object ''API_KEY'' ''cli-override'' True, env_object ''LOG_LEVEL'' ''info'' False,
            env_object ''EXTRA'' ''1'' False] \<noteq> []"
    by simp
  from summary_masks_secrets [OF p example_declarations_found n example_gathered r]
  obtain items where
    "[CHR 0x0A # ''Environment variables:'', ''  API_KEY: *** (secret)'', ''  EXTRA: 1'',
      ''  LOG_LEVEL: info'', []] =
     [CHR 0x0A # ''Environment variables:'']
     @ map (\<lambda>(name, val). if declared_secret example_declarations name
                            then ''  '' @ name @ '': *** (secret)''
                            else ''  '' @ name @ '': '' @ val) items
     @ [[]]"
    and "sorted (map fst items)"
    by blast
  then show ?thesis
    using example_declarations_found n example_gathered by auto
qed

text \<open>
  The counterexample to C8 as stated: for the document without an environment section
  and the override \<^verbatim>\<open>API_KEY=test\<close>, reconciliation succeeds with a non-empty result
  and echoes no summary.
\<close>

theorem no_summary_without_declarations:
  "gather_environment_variables (\<lambda>text. Inr plain_doc) example_env ''workflow: ...'' [''API_KEY=test''] =
   Inr ([], [env_object ''API_KEY'' ''test'' False])"
  by code_simp

subsection \<open>Declarations without a name\<close>

text \<open>
  Claim C10. A declaration entry that is a mapping whose name is missing, null or empty
  (any value Python takes as false) is skipped: the document with the entry and the
  document without it give the same returned list or the same exception, so the entry is
  neither reported missing nor emitted and its secret flag has no effect; and when other
  entries remain, the two runs agree on the echoed summary as well.
\<close>

theorem nameless_declaration_skipped:
  assumes "\<not> truthy (dict_get kvs ''name'' PNone)"
    and "safe_load c = Inr parsed"
    and "env_declarations parsed = Inr (PList (xs @ PDict kvs # ys))"
    and "safe_load c' = Inr parsed'"
    and "env_declarations parsed' = Inr (PList (xs @ ys))"
  shows "map_sum id snd (gather_environment_variables safe_load getenv c cli_overrides) =
         map_sum id snd (gather_environment_variables safe_load getenv c' cli_overrides)
       \<and> (xs @ ys \<noteq> [] \<longrightarrow>
            gather_environment_variables safe_load getenv c cli_overrides =
            gather_environment_variables safe_load getenv c' cli_overrides)"
proof (cases "xs @ ys = []")
  case True
  then have e: "xs = []" "ys = []" by simp_all
  have "scan_declarations getenv [PDict kvs] ([], [], {}) = Inr ([], [], {})"
    using assms(1) by (simp add: declare_variable_skip)
  then show ?thesis
    using assms(2-5) e
    by (simp add: gather_environment_variables_def split: sum.splits)
next
  case False
  then show ?thesis
    using assms
    by (simp add: gather_environment_variables_def scan_declarations_skip)
qed

theorem nameless_declaration_skipped_witness:
  "\<not> truthy (dict_get [(PStr ''secret'', PBool True)] ''name'' PNone)
   \<and> example_declarations @ [] \<noteq> []
   \<and> gather_environment_variables
        (\<lambda>text. if text = ''with'' then
                   Inr (PDict [(PStr ''workflow'', PDict [(PStr ''environment'',
                          PList (example_declarations @ PDict [(PStr ''secret'', PBool True)] # []))])])
                 else Inr example_doc)
        example_env ''with'' [] =
     Inr ([CHR 0x0A # ''Environment variables:'', ''  API_KEY: *** (secret)'', ''  LOG_LEVEL: info'', []],
          [env_object ''API_KEY'' ''secret-key-123'' True, env_object ''LOG_LEVEL'' ''info'' False])"
proof -
  let ?load = "\<lambda>text. if text = ''with'' then
                   Inr (PDict [(PStr ''workflow'', PDict [(PStr ''environment'',
                          PList (example_declarations @ PDict [(PStr ''secret'', PBool True)] # []))])])
                 else (Inr example_doc :: string + pyval)"
  have k: "\<not> truthy (dict_get [(PStr ''secret'', PBool True)] ''name'' PNone)"
    by (simp add: dict_get_def)
  have n: "example_declarations @ [] \<noteq> []"
    by (simp add: example_declarations_def)
  have p: "?load ''with'' =
      Inr (PDict [(PStr ''workflow'', PDict [(PStr ''environment'',
             PList (example_declarations @ PDict [(PStr ''secret'', PBool True)] # []))])])"
    by simp
  have d: "env_declarations (PDict [(PStr ''workflow'', PDict [(PStr ''environment'',
             PList (example_declarations @ PDict [(PStr ''secret'', PBool True)] # []))])]) =
           Inr (PList (example_declarations @ PDict [(PStr ''secret'', PBool True)] # []))"
    by (simp add: env_declarations_def py_get_def dict_get_def)
  have p': "?load ''without'' = Inr example_doc"
    by simp
  have d': "env_declarations example_doc = Inr (PList (example_declarations @ []))"
    by (simp add: example_declarations_found)
  have g: "gather_environment_variables ?load example_env ''without'' [] =
     Inr ([CHR 0x0A # ''Environment variables:'', ''  API_KEY: *** (secret)'', ''  LOG_LEVEL: info'', []],
          [env_object ''API_KEY'' ''secret-key-123'' True, env_object ''LOG_LEVEL'' ''info'' False])"
    by code_simp
  from nameless_declaration_skipped
         [where safe_load = ?load and c = "''with''" and c' = "''without''"
            and kvs = "[(PStr ''secret'', PBool True)]" and xs = example_declarations and ys = "[]"
            and getenv = example_env and cli_overrides = "[]", OF k p d p' d'] n g
  show ?thesis
    using k n by simp
qed

section \<open>The command layer: the theorems\<close>

subsection \<open>The requests of a deploy\<close>

lemma upsert_workflow_payload:
  "upsert_workflow srv sent yaml_content (if env_dict \<noteq> [] then PList env_dict else PNone) (of_opt stage) =
     (sent @ [upsert_payload yaml_content env_dict stage], srv sent (upsert_payload yaml_content env_dict stage))"
  by (cases stage) (simp_all add: upsert_workflow_def request_def upsert_payload_def)

lemma deploy_phase_requests:
  "requests (deploy_phase w out sent workflow_id deploy_name deploy_stage) =
     fst (deploy_workflow (w_srv w) sent workflow_id deploy_name deploy_stage)"
  by (simp add: deploy_phase_def Let_def handle_api_error_def split: prod.splits sum.splits)

lemma deploy_phase_by_id:
  "truthy workflow_id \<Longrightarrow>
     requests (deploy_phase w out sent workflow_id deploy_name deploy_stage) =
       sent @ [PDict [(PStr ''action'', PStr ''deploy''), (PStr ''workflow_id'', workflow_id)]]"
  by (simp add: deploy_phase_requests deploy_workflow_def request_def)

lemma push_phase_failed:
  "w_srv w [] (upsert_payload yaml_content env_dict stage) = Inl e \<Longrightarrow>
     push_phase w out yaml_content env_dict stage =
       handle_api_error e
         (out @ [Out (if truthy (of_opt stage)
                      then [Lit ''Pushing workflow (stage override: '', Str (of_opt stage), Lit '')...'']
                      else [Lit ''Pushing workflow...''])])
         [upsert_payload yaml_content env_dict stage]"
  by (simp add: push_phase_def upsert_workflow_payload)

lemma push_phase_requests:
  "requests (push_phase w out yaml_content env_dict stage) =
     (case w_srv w [] (upsert_payload yaml_content env_dict stage) of
        Inl e \<Rightarrow> [upsert_payload yaml_content env_dict stage]
      | Inr push_result \<Rightarrow>
          (case py_get (dict_get push_result ''workflow'' (PDict [])) ''id'' PNone of
             Inl x \<Rightarrow> [upsert_payload yaml_content env_dict stage]
           | Inr workflow_id \<Rightarrow>
               if truthy workflow_id then
                 [upsert_payload yaml_content env_dict stage,
                  PDict [(PStr ''action'', PStr ''deploy''), (PStr ''workflow_id'', workflow_id)]]
               else [upsert_payload yaml_content env_dict stage]))"
  by (simp add: push_phase_def upsert_workflow_payload Let_def handle_api_error_def uncaught_def exit_1_def
      deploy_phase_by_id py_get_def split: sum.splits pyval.splits)

lemma push_phase_exit_code:
  "exit_code (push_phase w out yaml_content env_dict stage) =
     (case w_srv w [] (upsert_payload yaml_content env_dict stage) of
        Inl e \<Rightarrow> 1
      | Inr push_result \<Rightarrow>
          (case py_get (dict_get push_result ''workflow'' (PDict [])) ''id'' PNone of
             Inl x \<Rightarrow> 1
           | Inr workflow_id \<Rightarrow>
               if truthy workflow_id then
                 (case w_srv w [upsert_payload yaml_content env_dict stage]
                         (PDict [(PStr ''action'', PStr ''deploy''), (PStr ''workflow_id'', workflow_id)]) of
                    Inl e \<Rightarrow> 1
                  | Inr result \<Rightarrow> 0)
               else 1))"
  by (simp add: push_phase_def upsert_workflow_payload Let_def handle_api_error_def uncaught_def exit_1_def
      py_get_def deploy_phase_def deploy_workflow_def request_def split: sum.splits pyval.splits)

lemma deploy_file_based:
  assumes "file_based yaml_file workflow_id name"
    and "WorkflowsClient (w_getenv w) api_key = Inr key"
    and "workflow_file w yaml_file = Some path"
    and "w_read_text w path = Inr yaml_content"
    and "gather_environment_variables (w_safe_load w) (w_getenv w) yaml_content env = Inr (shown, env_dict)"
  shows "deploy w api_key yaml_file workflow_id name stage env =
           push_phase w (map (\<lambda>l. Out [Lit l]) shown) yaml_content env_dict stage"
  using assms by (simp add: deploy_def)

lemma deploy_file_based_sent:
  assumes "file_based yaml_file workflow_id name"
    and "requests (deploy w api_key yaml_file workflow_id name stage env) \<noteq> []"
  shows "\<exists>key path yaml_content shown env_dict.
           WorkflowsClient (w_getenv w) api_key = Inr key
         \<and> workflow_file w yaml_file = Some path
         \<and> w_read_text w path = Inr yaml_content
         \<and> gather_environment_variables (w_safe_load w) (w_getenv w) yaml_content env = Inr (shown, env_dict)"
  using assms
  by (auto simp: deploy_def no_client_def exit_1_def uncaught_def
      split: sum.splits option.splits exn.splits)

lemma example_file_based:
  "file_based (Some ''workflow.yaml'') None None"
  by (simp add: file_based_def)

text \<open>
  Claim C5, as the code has it. The claim promises one upsert and one deploy request for
  every file-based invocation; a file-based invocation whose local checks fail posts
  nothing, as the counterexample below shows. For a file-based deploy with an
  API key, a file that is read and a successful reconciliation, the first request is the
  upsert, posted once. If the upsert raises, it stays the only request and the exit code
  is 1. If it succeeds and the response's workflow has an id, exactly one deploy request
  follows, carrying that id alone (the name and stage of the response go to the client
  call, which ignores them when an id is given). If the response has no id, no deploy is
  attempted and the exit code is 1.
\<close>

theorem upsert_then_deploy:
  assumes "file_based yaml_file workflow_id name"
    and "WorkflowsClient (w_getenv w) api_key = Inr key"
    and "workflow_file w yaml_file = Some path"
    and "w_read_text w path = Inr yaml_content"
    and "gather_environment_variables (w_safe_load w) (w_getenv w) yaml_content env = Inr (shown, env_dict)"
  shows "(\<forall>e. w_srv w [] (upsert_payload yaml_content env_dict stage) = Inl e \<longrightarrow>
            requests (deploy w api_key yaml_file workflow_id name stage env) =
              [upsert_payload yaml_content env_dict stage]
          \<and> exit_code (deploy w api_key yaml_file workflow_id name stage env) = 1)
       \<and> (\<forall>push_result. w_srv w [] (upsert_payload yaml_content env_dict stage) = Inr push_result \<longrightarrow>
            (case py_get (dict_get push_result ''workflow'' (PDict [])) ''id'' PNone of
               Inr new_id \<Rightarrow>
                 if truthy new_id then
                   requests (deploy w api_key yaml_file workflow_id name stage env) =
                     [upsert_payload yaml_content env_dict stage,
                      PDict [(PStr ''action'', PStr ''deploy''), (PStr ''workflow_id'', new_id)]]
                 else
                   requests (deploy w api_key yaml_file workflow_id name stage env) =
                     [upsert_payload yaml_content env_dict stage]
                   \<and> exit_code (deploy w api_key yaml_file workflow_id name stage env) = 1
             | Inl x \<Rightarrow>
                 requests (deploy w api_key yaml_file workflow_id name stage env) =
                   [upsert_payload yaml_content env_dict stage]
                 \<and> exit_code (deploy w api_key yaml_file workflow_id name stage env) = 1))"
proof -
  have d: "deploy w api_key yaml_file workflow_id name stage env =
           push_phase w (map (\<lambda>l. Out [Lit l]) shown) yaml_content env_dict stage"
    using assms by (rule deploy_file_based)
  show ?thesis
    unfolding d
    by (auto simp: push_phase_requests push_phase_exit_code split: sum.splits)
qed

theorem upsert_then_deploy_witness:
  "file_based (Some ''workflow.yaml'') None None
   \<and> WorkflowsClient (w_getenv (example_world example_doc example_env True)) (Some ''test-key'') =
       Inr ''test-key''
   \<and> workflow_file (example_world example_doc example_env True) (Some ''workflow.yaml'') =
       Some ''workflow.yaml''
   \<and> w_read_text (example_world example_doc example_env True) ''workflow.yaml'' = Inr ''workflow: ...''
   \<and> gather_environment_variables (w_safe_load (example_world example_doc example_env True))
         (w_getenv (example_world example_doc example_env True)) ''workflow: ...'' [] =
       Inr ([CHR 0x0A # ''Environment variables:'', ''  API_KEY: *** (secret)'', ''  LOG_LEVEL: info'', []],
            [env_object ''API_KEY'' ''secret-key-123'' True, env_object ''LOG_LEVEL'' ''info'' False])
   \<and> requests (deploy (example_world example_doc example_env True) (Some ''test-key'')
                 (Some ''workflow.yaml'') None None None []) =
       [upsert_payload ''workflow: ...''
          [env_object ''API_KEY'' ''secret-key-123'' True, env_object ''LOG_LEVEL'' ''info'' False] None,
        PDict [(PStr ''action'', PStr ''deploy''), (PStr ''workflow_id'', PStr ''123'')]]"
proof -
  let ?w = "example_world example_doc example_env True"
  let ?env_dict = "[env_object ''API_KEY'' ''secret-key-123'' True, env_object ''LOG_LEVEL'' ''info'' False]"
  have k: "WorkflowsClient (w_getenv ?w) (Some ''test-key'') = Inr ''test-key''"
    by (simp add: WorkflowsClient_def)
  have f: "workflow_file ?w (Some ''workflow.yaml'') = Some ''workflow.yaml''"
    by (simp add: workflow_file_def)
  have t: "w_read_text ?w ''workflow.yaml'' = Inr ''workflow: ...''"
    by (simp add: example_world_def)
  have g: "gather_environment_variables (w_safe_load ?w) (w_getenv ?w) ''workflow: ...'' [] =
       Inr ([CHR 0x0A # ''Environment variables:'', ''  API_KEY: *** (secret)'', ''  LOG_LEVEL: info'', []],
            ?env_dict)"
    by code_simp
  have r: "w_srv ?w [] (upsert_payload ''workflow: ...'' ?env_dict None) =
       Inr [(PStr ''created'', PBool True),
            (PStr ''workflow'',
               PDict [(PStr ''id'', PStr ''123''), (PStr ''name'', PStr ''test-workflow''),
                      (PStr ''stage'', PStr ''dev'')])]"
    by (simp add: example_world_def example_srv_def upsert_payload_def)
  from upsert_then_deploy [OF example_file_based k f t g, of None] r
  show ?thesis
    using example_file_based k f t g by (simp add: py_get_def dict_get_def)
qed

text \<open>
  The counterexample to C5 as stated: a deploy of the example file in an environment
  that does not define the declared \<^verbatim>\<open>LOG_LEVEL\<close> exits with 1 and posts neither an
  upsert nor a deploy request.
\<close>

theorem no_request_when_reconciliation_fails:
  "requests (deploy (example_world example_doc [''API_KEY'' \<mapsto> ''secret-key-123''] True)
               (Some ''test-key'') (Some ''workflow.yaml'') None None None []) = []
   \<and> exit_code (deploy (example_world example_doc [''API_KEY'' \<mapsto> ''secret-key-123''] True)
                  (Some ''test-key'') (Some ''workflow.yaml'') None None None []) = 1"
  by code_simp

subsection \<open>The stage of a deploy\<close>

lemma deploy_command_posts:
  assumes "requests (deploy_command w api_key yaml_file workflow_id name stage_flag env) \<noteq> []"
  shows "deploy_command w api_key yaml_file workflow_id name stage_flag env =
           deploy w api_key yaml_file workflow_id name
             (click_option (w_getenv w) ''ETLR_STAGE'' stage_flag) env"
  using assms
  by (auto simp: deploy_command_def bad_yaml_file_def split: option.splits if_splits)

text \<open>
  Claim C6, as the code has it. The claim puts the \<^verbatim>\<open>--stage\<close> flag over
  \<^verbatim>\<open>ETLR_STAGE\<close> over the YAML's stage; a flag given as the empty string hides the
  environment variable and is then dropped from the payload, so that the YAML's stage wins
  over a set \<^verbatim>\<open>ETLR_STAGE\<close>, as the counterexample below shows. In a file-based
  deploy that posts anything, the first request is the upsert of the file's content, and
  its stage field is: the value of the flag when the flag is given and not empty; no field
  when the flag is given and empty; when the flag is not given, the value of
  \<^verbatim>\<open>ETLR_STAGE\<close> when it is set and not empty, and no field otherwise. Without the
  field, the stage written in the YAML, sent verbatim as \<^verbatim>\<open>workflow_yaml\<close>, is the
  one in effect.
\<close>

theorem stage_precedence:
  assumes "file_based yaml_file workflow_id name"
    and "requests (deploy_command w api_key yaml_file workflow_id name stage_flag env) = first # rest"
  shows "\<exists>kvs. first = PDict kvs
         \<and> map_of kvs (PStr ''action'') = Some (PStr ''upsert'')
         \<and> (\<exists>path yaml_content.
                workflow_file w yaml_file = Some path \<and> w_read_text w path = Inr yaml_content
              \<and> map_of kvs (PStr ''workflow_yaml'') = Some (PStr yaml_content))
         \<and> map_of kvs (PStr ''stage'') =
             (case stage_flag of
                Some flag \<Rightarrow> if flag = [] then None else Some (PStr flag)
              | None \<Rightarrow>
                  (case w_getenv w ''ETLR_STAGE'' of
                     Some var \<Rightarrow> if var = [] then None else Some (PStr var)
                   | None \<Rightarrow> None))"
proof -
  let ?stage = "click_option (w_getenv w) ''ETLR_STAGE'' stage_flag"
  from assms(2) have c: "deploy_command w api_key yaml_file workflow_id name stage_flag env =
      deploy w api_key yaml_file workflow_id name ?stage env"
    by (intro deploy_command_posts) simp
  from assms(2) have ne: "requests (deploy w api_key yaml_file workflow_id name ?stage env) \<noteq> []"
    by (simp add: c)
  from deploy_file_based_sent [OF assms(1) ne] obtain key path yaml_content shown env_dict where
    h: "WorkflowsClient (w_getenv w) api_key = Inr key"
       "workflow_file w yaml_file = Some path"
       "w_read_text w path = Inr yaml_content"
       "gather_environment_variables (w_safe_load w) (w_getenv w) yaml_content env = Inr (shown, env_dict)"
    by blast
  have "requests (deploy w api_key yaml_file workflow_id name ?stage env) =
        requests (push_phase w (map (\<lambda>l. Out [Lit l]) shown) yaml_content env_dict ?stage)"
    using deploy_file_based [OF assms(1) h] by simp
  with assms(2) have "first = upsert_payload yaml_content env_dict ?stage"
    by (auto simp: c push_phase_requests split: sum.splits if_splits)
  then show ?thesis
    using h(2,3)
    by (auto simp: upsert_payload_def click_option_def split: option.splits)
qed

theorem stage_precedence_witness:
  "file_based (Some ''workflow.yaml'') None None
   \<and> staged_env ''ETLR_STAGE'' = Some ''staging'' \<and> example_env ''ETLR_STAGE'' = None
   \<and> (\<exists>kvs rest.
         requests (deploy_command (example_world example_doc staged_env True) (Some ''test-key'')
                     (Some ''workflow.yaml'') None None (Some ''prod'') []) = PDict kvs # rest
         \<and> map_of kvs (PStr ''stage'') = Some (PStr ''prod''))
   \<and> (\<exists>kvs rest.
         requests (deploy_command (example_world example_doc staged_env True) (Some ''test-key'')
                     (Some ''workflow.yaml'') None None None []) = PDict kvs # rest
         \<and> map_of kvs (PStr ''stage'') = Some (PStr ''staging''))
   \<and> (\<exists>kvs rest.
         requests (deploy_command (example_world example_doc example_env True) (Some ''test-key'')
                     (Some ''workflow.yaml'') None None None []) = PDict kvs # rest
         \<and> map_of kvs (PStr ''stage'') = None
         \<and> map_of kvs (PStr ''workflow_yaml'') = Some (PStr ''workflow: ...''))"
proof -
  let ?env_dict = "[env_object ''API_KEY'' ''secret-key-123'' True, env_object ''LOG_LEVEL'' ''info'' False]"
  let ?dep = "PDict [(PStr ''action'', PStr ''deploy''), (PStr ''workflow_id'', PStr ''123'')]"
  have s: "staged_env ''ETLR_STAGE'' = Some ''staging''" and e: "example_env ''ETLR_STAGE'' = None"
    by (simp_all add: staged_env_def example_env_def)
  have a: "requests (deploy_command (example_world example_doc staged_env True) (Some ''test-key'')
                     (Some ''workflow.yaml'') None None (Some ''prod'') []) =
           upsert_payload ''workflow: ...'' ?env_dict (Some ''prod'') # [?dep]"
    by code_simp
  have b: "requests (deploy_command (example_world example_doc staged_env True) (Some ''test-key'')
                     (Some ''workflow.yaml'') None None None []) =
           upsert_payload ''workflow: ...'' ?env_dict (Some ''staging'') # [?dep]"
    by code_simp
  have c: "requests (deploy_command (example_world example_doc example_env True) (Some ''test-key'')
                     (Some ''workflow.yaml'') None None None []) =
           upsert_payload ''workflow: ...'' ?env_dict None # [?dep]"
    by code_simp
  have ws: "w_getenv (example_world example_doc staged_env True) = staged_env"
    and we: "w_getenv (example_world example_doc example_env True) = example_env"
    and wr: "w_read_text (example_world example_doc example_env True) ''workflow.yaml'' = Inr ''workflow: ...''"
    and wf: "workflow_file (example_world example_doc example_env True) (Some ''workflow.yaml'') =
               Some ''workflow.yaml''"
    by (simp_all add: example_world_def workflow_file_def)
  from stage_precedence [OF example_file_based a] stage_precedence [OF example_file_based b]
    stage_precedence [OF example_file_based c]
  show ?thesis
    using example_file_based s e a b c
    by (simp add: ws we wr wf upsert_payload_def)
qed

text \<open>
  The counterexample to C6 as stated: with \<^verbatim>\<open>ETLR_STAGE=staging\<close> in the
  environment and the flag given as \<^verbatim>\<open>--stage ''\<close>, the upsert posted carries no
  stage field, so neither the flag nor the environment variable but the YAML's stage
  \<^verbatim>\<open>dev\<close> is in effect.
\<close>

theorem empty_flag_hides_environment_stage:
  "staged_env ''ETLR_STAGE'' = Some ''staging''
   \<and> requests (deploy_command (example_world example_doc staged_env True) (Some ''test-key'')
                 (Some ''workflow.yaml'') None None (Some []) []) =
       [PDict [(PStr ''action'', PStr ''upsert''), (PStr ''workflow_yaml'', PStr ''workflow: ...''),
               (PStr ''env'',
                PList [PDict [(PStr ''name'', PStr ''API_KEY''), (PStr ''value'', PStr ''secret-key-123''),
                              (PStr ''secret'', PBool True)],
                       PDict [(PStr ''name'', PStr ''LOG_LEVEL''), (PStr ''value'', PStr ''info''),
                              (PStr ''secret'', PBool False)]])],
        PDict [(PStr ''action'', PStr ''deploy''), (PStr ''workflow_id'', PStr ''123'')]]"
  by code_simp

subsection \<open>Confirmation\<close>

text \<open>
  Claim C7, as the code has it. The claim promises exactly one API request after an
  affirmative answer; a \<^verbatim>\<open>delete\<close> without an identifier posts none, as the
  counterexample below shows. Without \<^verbatim>\<open>--yes\<close>, a negative answer to
  the prompt of \<^verbatim>\<open>delete\<close> or \<^verbatim>\<open>restore\<close> ends the command with exit code 0, the
  echo "Aborted." and no request. An affirmative answer makes the command proceed exactly
  as with \<^verbatim>\<open>--yes\<close>: with an API key, \<^verbatim>\<open>restore\<close> posts exactly one request, and
  \<^verbatim>\<open>delete\<close> posts exactly one request when a workflow id or both name and stage are
  given, and none otherwise; without an API key neither posts a request.
\<close>

theorem confirmation_gate:
  "(\<not> w_confirm w (delete_prompt workflow_id name stage) \<longrightarrow>
      delete w api_key workflow_id name stage False =
        \<lparr>exit_code = 0, echoed = [Out [Lit ''Aborted.'']], requests = []\<rparr>)
   \<and> (\<not> w_confirm w (restore_prompt version) \<longrightarrow>
      restore w api_key restored_id version False =
        \<lparr>exit_code = 0, echoed = [Out [Lit ''Aborted.'']], requests = []\<rparr>)
   \<and> (w_confirm w (delete_prompt workflow_id name stage) \<longrightarrow>
      delete w api_key workflow_id name stage False = delete w api_key workflow_id name stage True
      \<and> requests (delete w api_key workflow_id name stage False) =
          (if WorkflowsClient (w_getenv w) api_key = Inl api_key_missing then []
           else if truthy (of_opt workflow_id) then
             [PDict [(PStr ''action'', PStr ''delete''), (PStr ''workflow_id'', of_opt workflow_id)]]
           else if truthy (of_opt name) \<and> truthy (of_opt stage) then
             [PDict [(PStr ''action'', PStr ''delete''), (PStr ''name'', of_opt name),
                     (PStr ''stage'', of_opt stage)]]
           else []))
   \<and> (w_confirm w (restore_prompt version) \<longrightarrow>
      restore w api_key restored_id version False = restore w api_key restored_id version True
      \<and> requests (restore w api_key restored_id version False) =
          (if WorkflowsClient (w_getenv w) api_key = Inl api_key_missing then []
           else [PDict [(PStr ''action'', PStr ''restore_version''), (PStr ''workflow_id'', PStr restored_id),
                        (PStr ''version'', PInt version)]]))"
proof -
  have c: "WorkflowsClient (w_getenv w) api_key = Inl api_key_missing
           \<or> (\<exists>k. WorkflowsClient (w_getenv w) api_key = Inr k)"
    by (auto simp: WorkflowsClient_def split: option.splits)
  have d: "requests (delete w api_key workflow_id name stage True) =
          (if WorkflowsClient (w_getenv w) api_key = Inl api_key_missing then []
           else if truthy (of_opt workflow_id) then
             [PDict [(PStr ''action'', PStr ''delete''), (PStr ''workflow_id'', of_opt workflow_id)]]
           else if truthy (of_opt name) \<and> truthy (of_opt stage) then
             [PDict [(PStr ''action'', PStr ''delete''), (PStr ''name'', of_opt name),
                     (PStr ''stage'', of_opt stage)]]
           else [])"
    using c
    by (auto simp: delete_def no_client_def delete_workflow_def request_def handle_api_error_def
        split: sum.splits)
  have r: "requests (restore w api_key restored_id version True) =
          (if WorkflowsClient (w_getenv w) api_key = Inl api_key_missing then []
           else [PDict [(PStr ''action'', PStr ''restore_version''), (PStr ''workflow_id'', PStr restored_id),
                        (PStr ''version'', PInt version)]])"
    using c
    by (auto simp: restore_def no_client_def restore_version_def request_def handle_api_error_def
        uncaught_def Let_def split: sum.splits option.splits)
  have d': "w_confirm w (delete_prompt workflow_id name stage) \<Longrightarrow>
      delete w api_key workflow_id name stage False = delete w api_key workflow_id name stage True"
    by (simp add: delete_def)
  have r': "w_confirm w (restore_prompt version) \<Longrightarrow>
      restore w api_key restored_id version False = restore w api_key restored_id version True"
    by (simp add: restore_def)
  show ?thesis
    using d r d' r' by (simp add: delete_def restore_def aborted_def)
qed

theorem confirmation_gate_witness:
  "\<not> w_confirm (example_world example_doc example_env False) (delete_prompt (Some ''123'') None None)
   \<and> delete (example_world example_doc example_env False) (Some ''test-key'') (Some ''123'') None None False =
       \<lparr>exit_code = 0, echoed = [Out [Lit ''Aborted.'']], requests = []\<rparr>
   \<and> \<not> w_confirm (example_world example_doc example_env False) (restore_prompt 2)
   \<and> restore (example_world example_doc example_env False) (Some ''test-key'') ''123'' 2 False =
       \<lparr>exit_code = 0, echoed = [Out [Lit ''Aborted.'']], requests = []\<rparr>
   \<and> w_confirm (example_world example_doc example_env True) (delete_prompt (Some ''123'') None None)
   \<and> requests (delete (example_world example_doc example_env True) (Some ''test-key'') (Some ''123'')
                 None None False) =
       [PDict [(PStr ''action'', PStr ''delete''), (PStr ''workflow_id'', PStr ''123'')]]
   \<and> w_confirm (example_world example_doc example_env True) (restore_prompt 2)
   \<and> requests (restore (example_world example_doc example_env True) (Some ''test-key'') ''123'' 2 False) =
       [PDict [(PStr ''action'', PStr ''restore_version''), (PStr ''workflow_id'', PStr ''123''),
               (PStr ''version'', PInt 2)]]"
proof -
  have n: "\<not> w_confirm (example_world example_doc example_env False) p"
    and y: "w_confirm (example_world example_doc example_env True) p" for p
    by (simp_all add: example_world_def)
  have k: "WorkflowsClient (w_getenv (example_world example_doc example_env True)) (Some ''test-key'') \<noteq>
           Inl api_key_missing"
    by (simp add: WorkflowsClient_def)
  have a: "delete (example_world example_doc example_env False) (Some ''test-key'') (Some ''123'') None None False =
       \<lparr>exit_code = 0, echoed = [Out [Lit ''Aborted.'']], requests = []\<rparr>
     \<and> restore (example_world example_doc example_env False) (Some ''test-key'') ''123'' 2 False =
       \<lparr>exit_code = 0, echoed = [Out [Lit ''Aborted.'']], requests = []\<rparr>"
    using confirmation_gate [where w = "example_world example_doc example_env False"
        and workflow_id = "Some ''123''" and name = None and stage = None and version = 2
        and api_key = "Some ''test-key''" and restored_id = "''123''"] n
    by blast
  have b: "requests (delete (example_world example_doc example_env True) (Some ''test-key'') (Some ''123'')
                 None None False) =
       [PDict [(PStr ''action'', PStr ''delete''), (PStr ''workflow_id'', PStr ''123'')]]
     \<and> requests (restore (example_world example_doc example_env True) (Some ''test-key'') ''123'' 2 False) =
       [PDict [(PStr ''action'', PStr ''restore_version''), (PStr ''workflow_id'', PStr ''123''),
               (PStr ''version'', PInt 2)]]"
    using confirmation_gate [where w = "example_world example_doc example_env True"
        and workflow_id = "Some ''123''" and name = None and stage = None and version = 2
        and api_key = "Some ''test-key''" and restored_id = "''123''"] y k
    by auto
  show ?thesis
    using a b n y by blast
qed

text \<open>
  The counterexample to C7 as stated: \<^verbatim>\<open>delete\<close> without \<^verbatim>\<open>--yes\<close> and without
  any identifier, answered affirmatively, with an API key: the client raises before
  posting, so no API request is issued and the exit code is 1.
\<close>

theorem confirmed_delete_without_identifier:
  "w_confirm (example_world example_doc example_env True) (delete_prompt None None None)
   \<and> delete (example_world example_doc example_env True) (Some ''test-key'') None None None False =
       \<lparr>exit_code = 1,
        echoed = [Err [Lit ''Error: '', Lit ''Must provide either workflow_id or both name and stage'']],
        requests = []\<rparr>"
  by code_simp

end
